theory Spec2Isabelle
  imports Complex_Main "HOL-Library.Word" "HOL-Library.Monad_Syntax"
begin

section \<open>Values of the host language\<close>

text \<open>
  A JavaScript string is a sequence of 16-bit code units, a \<open>Uint8Array\<close> a sequence of
  bytes. \<open>lit\<close> reads an ASCII literal of the source as such a string. Exceptions are
  values of \<open>error\<close>; a computation that may throw returns \<open>error + 'a\<close>.
\<close>

type_synonym byte = "8 word"
type_synonym jsstring = "16 word list"

datatype error = RangeError | InvalidCharacterError

definition lit :: "string \<Rightarrow> jsstring" where
  "lit s = map of_char s"

definition andThen :: "error + 'a \<Rightarrow> ('a \<Rightarrow> error + 'b) \<Rightarrow> error + 'b" where
  "andThen r f = (case r of Inl e \<Rightarrow> Inl e | Inr x \<Rightarrow> f x)"

text \<open>
  What the source takes from its environment: the clock read by \<open>new Date()\<close>, as a time
  value in milliseconds since the epoch; what \<open>Date.parse\<close> returns on a string outside
  the date-time string format of the language standard, which the standard leaves to the
  implementation; and the exponent notation that \<open>toFixed\<close> falls back to for
  magnitudes of at least \<open>10\<^sup>2\<^sup>1\<close>, which is not modelled here.
\<close>

record host =
  now :: int
  parseOther :: "jsstring \<Rightarrow> int option"
  exponentForm :: "rat \<Rightarrow> jsstring"

subsection \<open>\<open>TextEncoder.encode\<close>: UTF-16 code units to UTF-8 bytes\<close>

definition is_lead :: "16 word \<Rightarrow> bool" where
  "is_lead u = (0xD800 \<le> unat u \<and> unat u \<le> 0xDBFF)"

definition is_trail :: "16 word \<Rightarrow> bool" where
  "is_trail u = (0xDC00 \<le> unat u \<and> unat u \<le> 0xDFFF)"

text \<open>A code unit on its own: a surrogate without its partner becomes U+FFFD.\<close>

definition lone_scalar :: "16 word \<Rightarrow> nat" where
  "lone_scalar u = (if is_lead u \<or> is_trail u then 0xFFFD else unat u)"

fun scalar_values :: "jsstring \<Rightarrow> nat list" where
  "scalar_values [] = []"
| "scalar_values [u] = [lone_scalar u]"
| "scalar_values (u # v # r) =
     (if is_lead u \<and> is_trail v
      then (0x10000 + (unat u - 0xD800) * 0x400 + (unat v - 0xDC00)) # scalar_values r
      else lone_scalar u # scalar_values (v # r))"

definition utf8_of_scalar :: "nat \<Rightarrow> byte list" where
  "utf8_of_scalar c =
     (if c < 0x80 then [of_nat c]
      else if c < 0x800 then [of_nat (0xC0 + c div 64), of_nat (0x80 + c mod 64)]
      else if c < 0x10000 then
        [of_nat (0xE0 + c div 4096), of_nat (0x80 + (c div 64) mod 64), of_nat (0x80 + c mod 64)]
      else
        [of_nat (0xF0 + c div 262144), of_nat (0x80 + (c div 4096) mod 64),
         of_nat (0x80 + (c div 64) mod 64), of_nat (0x80 + c mod 64)])"

definition TextEncoder_encode :: "jsstring \<Rightarrow> byte list" where
  "TextEncoder_encode s = concat (map utf8_of_scalar (scalar_values s))"

subsection \<open>\<open>Uint8Array\<close>\<close>

text \<open>
  \<open>new Uint8Array(n)\<close> is \<open>n\<close> zero bytes. An element store outside the array is ignored,
  as \<open>list_update\<close> does; the stored number is reduced modulo 256, as \<open>of_nat\<close> and
  \<open>of_int\<close> into \<open>8 word\<close> do. \<open>set\<close> raises a \<open>RangeError\<close> when the source does not
  fit at the offset.
\<close>

definition new_Uint8Array :: "nat \<Rightarrow> byte list" where
  "new_Uint8Array n = replicate n 0"

definition Uint8Array_set :: "byte list \<Rightarrow> byte list \<Rightarrow> nat \<Rightarrow> error + byte list" where
  "Uint8Array_set target source offset =
     (if offset + length source > length target then Inl RangeError
      else Inr (take offset target @ source @ drop (offset + length source) target))"

subsection \<open>\<open>String.fromCharCode\<close> and \<open>btoa\<close>\<close>

definition String_fromCharCode :: "byte list \<Rightarrow> jsstring" where
  "String_fromCharCode bs = map ucast bs"

definition b64_alphabet :: string where
  "b64_alphabet = ''ABCDEFGHIJKLMNOPQRSTUVWXYZabcdefghijklmnopqrstuvwxyz0123456789+/''"

definition b64_char :: "nat \<Rightarrow> 16 word" where
  "b64_char n = of_char (b64_alphabet ! n)"

fun b64_groups :: "nat list \<Rightarrow> jsstring" where
  "b64_groups (a # b # c # r) =
     [b64_char (a div 4), b64_char ((a mod 4) * 16 + b div 16),
      b64_char ((b mod 16) * 4 + c div 64), b64_char (c mod 64)] @ b64_groups r"
| "b64_groups [a, b] =
     [b64_char (a div 4), b64_char ((a mod 4) * 16 + b div 16),
      b64_char ((b mod 16) * 4), 0x3D]"
| "b64_groups [a] = [b64_char (a div 4), b64_char ((a mod 4) * 16), 0x3D, 0x3D]"
| "b64_groups [] = []"

text \<open>\<open>btoa\<close> throws on a code unit above 255.\<close>

definition btoa :: "jsstring \<Rightarrow> error + jsstring" where
  "btoa s = (if list_ex (\<lambda>u. 255 < unat u) s then Inl InvalidCharacterError
             else Inr (b64_groups (map unat s)))"

subsection \<open>Numbers and \<open>Number.prototype.toFixed\<close>\<close>

text \<open>
  A number is not-a-number, an infinity, or finite; a finite number is given by its exact
  value, which is rational (\<open>Finite 0\<close> stands for both zeros). \<open>toFixed\<close> is defined by
  the standard on that exact value: the integer \<open>n\<close> with \<open>n / 10\<^sup>f\<close> nearest to it,
  the larger one on a tie.
\<close>

datatype jsnum = NaN | PosInf | NegInf | Finite rat

definition digit_char :: "nat \<Rightarrow> 16 word" where
  "digit_char d = of_nat (48 + d)"

fun digits10 :: "nat \<Rightarrow> jsstring" where
  "digits10 n = (if n < 10 then [digit_char n] else digits10 (n div 10) @ [digit_char (n mod 10)])"

declare digits10.simps [simp del]

definition Number_toFixed :: "host \<Rightarrow> jsnum \<Rightarrow> nat \<Rightarrow> jsstring" where
  "Number_toFixed h x f =
     (case x of
        NaN \<Rightarrow> lit ''NaN''
      | PosInf \<Rightarrow> lit ''Infinity''
      | NegInf \<Rightarrow> lit ''-Infinity''
      | Finite q \<Rightarrow>
          (let s = (if q < 0 then lit ''-'' else []);
               a = \<bar>q\<bar>
           in if 10 ^ 21 \<le> a then s @ exponentForm h a
              else
                (let n = nat \<lfloor>a * 10 ^ f + 1 / 2\<rfloor>;
                     m = digits10 n;
                     m = (if f \<noteq> 0 \<and> length m \<le> f
                          then replicate (f + 1 - length m) (digit_char 0) @ m else m)
                 in if f \<noteq> 0
                    then s @ take (length m - f) m @ lit ''.'' @ drop (length m - f) m
                    else s @ m)))"

subsection \<open>Time values and \<open>Date\<close>\<close>

text \<open>
  The day and year arithmetic of the standard, on integers; \<open>div\<close> is its floor and
  \<open>mod\<close> its modulo. \<open>YearFromDay\<close> computes the largest year that starts on or before a
  day from an estimate that is off by at most one.
\<close>

definition msPerDay :: int where "msPerDay = 86400000"
definition msPerHour :: int where "msPerHour = 3600000"
definition msPerMinute :: int where "msPerMinute = 60000"
definition msPerSecond :: int where "msPerSecond = 1000"

definition Day :: "int \<Rightarrow> int" where
  "Day t = t div msPerDay"

definition DaysInYear :: "int \<Rightarrow> int" where
  "DaysInYear y =
     (if y mod 4 \<noteq> 0 then 365 else if y mod 100 \<noteq> 0 then 366
      else if y mod 400 \<noteq> 0 then 365 else 366)"

definition DayFromYear :: "int \<Rightarrow> int" where
  "DayFromYear y =
     365 * (y - 1970) + (y - 1969) div 4 - (y - 1901) div 100 + (y - 1601) div 400"

definition YearFromDay :: "int \<Rightarrow> int" where
  "YearFromDay d =
     (let y = 1970 + (400 * d) div 146097
      in if d < DayFromYear y then y - 1
         else if DayFromYear (y + 1) \<le> d then y + 1
         else y)"

definition YearFromTime :: "int \<Rightarrow> int" where
  "YearFromTime t = YearFromDay (Day t)"

definition DayWithinYear :: "int \<Rightarrow> int" where
  "DayWithinYear t = Day t - DayFromYear (YearFromTime t)"

definition InLeapYear :: "int \<Rightarrow> int" where
  "InLeapYear t = (if DaysInYear (YearFromTime t) = 366 then 1 else 0)"

definition MonthFromTime :: "int \<Rightarrow> int" where
  "MonthFromTime t =
     (let d = DayWithinYear t; l = InLeapYear t
      in if d < 31 then 0
         else if d < 59 + l then 1
         else if d < 90 + l then 2
         else if d < 120 + l then 3
         else if d < 151 + l then 4
         else if d < 181 + l then 5
         else if d < 212 + l then 6
         else if d < 243 + l then 7
         else if d < 273 + l then 8
         else if d < 304 + l then 9
         else if d < 334 + l then 10
         else 11)"

definition DateFromTime :: "int \<Rightarrow> int" where
  "DateFromTime t =
     (let d = DayWithinYear t; l = InLeapYear t; m = MonthFromTime t
      in if m = 0 then d + 1
         else if m = 1 then d - 30
         else if m = 2 then d - 58 - l
         else if m = 3 then d - 89 - l
         else if m = 4 then d - 119 - l
         else if m = 5 then d - 150 - l
         else if m = 6 then d - 180 - l
         else if m = 7 then d - 211 - l
         else if m = 8 then d - 242 - l
         else if m = 9 then d - 272 - l
         else if m = 10 then d - 303 - l
         else d - 333 - l)"

definition HourFromTime :: "int \<Rightarrow> int" where
  "HourFromTime t = (t div msPerHour) mod 24"

definition MinFromTime :: "int \<Rightarrow> int" where
  "MinFromTime t = (t div msPerMinute) mod 60"

definition SecFromTime :: "int \<Rightarrow> int" where
  "SecFromTime t = (t div msPerSecond) mod 60"

definition msFromTime :: "int \<Rightarrow> int" where
  "msFromTime t = t mod msPerSecond"

definition MakeTime :: "int \<Rightarrow> int \<Rightarrow> int \<Rightarrow> int \<Rightarrow> int" where
  "MakeTime hour minute sec ms =
     hour * msPerHour + minute * msPerMinute + sec * msPerSecond + ms"

text \<open>Days from the start of a year to the start of its month \<open>mn\<close> (0 to 11).\<close>

definition DaysBeforeMonth :: "int \<Rightarrow> int \<Rightarrow> int" where
  "DaysBeforeMonth l mn =
     (if mn = 0 then 0
      else if mn = 1 then 31
      else if mn = 2 then 59 + l
      else if mn = 3 then 90 + l
      else if mn = 4 then 120 + l
      else if mn = 5 then 151 + l
      else if mn = 6 then 181 + l
      else if mn = 7 then 212 + l
      else if mn = 8 then 243 + l
      else if mn = 9 then 273 + l
      else if mn = 10 then 304 + l
      else 334 + l)"

definition MakeDay :: "int \<Rightarrow> int \<Rightarrow> int \<Rightarrow> int" where
  "MakeDay year month date =
     (let ym = year + month div 12;
          mn = month mod 12;
          l = (if DaysInYear ym = 366 then 1 else 0)
      in DayFromYear ym + DaysBeforeMonth l mn + date - 1)"

definition MakeDate :: "int \<Rightarrow> int \<Rightarrow> int" where
  "MakeDate day time = day * msPerDay + time"

text \<open>A \<open>Date\<close> holds a time value or is invalid (\<open>None\<close>, the source's \<open>NaN\<close>).\<close>

definition TimeClip :: "int \<Rightarrow> int option" where
  "TimeClip t = (if \<bar>t\<bar> > 8640000000000000 then None else Some t)"

definition is_digit :: "16 word \<Rightarrow> bool" where
  "is_digit u = (48 \<le> unat u \<and> unat u \<le> 57)"

definition number_of :: "jsstring \<Rightarrow> nat" where
  "number_of s = foldl (\<lambda>n u. 10 * n + (unat u - 48)) 0 s"

definition fixed_number :: "nat \<Rightarrow> jsstring \<Rightarrow> (nat \<times> jsstring) option" where
  "fixed_number w s =
     (if w \<le> length s \<and> list_all is_digit (take w s)
      then Some (number_of (take w s), drop w s) else None)"

text \<open>A field that may follow its separator: absent, it takes the default.\<close>

definition opt_field :: "16 word \<Rightarrow> nat \<Rightarrow> nat \<Rightarrow> jsstring \<Rightarrow> (nat \<times> jsstring) option" where
  "opt_field sep w dflt s =
     (case s of
        [] \<Rightarrow> Some (dflt, s)
      | c # r \<Rightarrow> if c = sep then fixed_number w r else Some (dflt, s))"

definition parse_year :: "jsstring \<Rightarrow> (int \<times> jsstring) option" where
  "parse_year s =
     (case s of
        [] \<Rightarrow> None
      | c # r \<Rightarrow>
          if c = 0x2B then map_option (\<lambda>(n, r'). (int n, r')) (fixed_number 6 r)
          else if c = 0x2D then
            (case fixed_number 6 r of
               None \<Rightarrow> None
             | Some (n, r') \<Rightarrow> if n = 0 then None else Some (- int n, r'))
          else map_option (\<lambda>(n, r'). (int n, r')) (fixed_number 4 s))"

definition DaysInMonth :: "int \<Rightarrow> nat \<Rightarrow> nat" where
  "DaysInMonth y m =
     (if m = 2 then (if DaysInYear y = 366 then 29 else 28)
      else if m = 4 \<or> m = 6 \<or> m = 9 \<or> m = 11 then 30 else 31)"

text \<open>
  The time of day after \<open>T\<close>: \<open>HH:mm\<close>, \<open>HH:mm:ss\<close> or \<open>HH:mm:ss.sss\<close>, then \<open>Z\<close>. The forms
  with a numeric offset or none are not recognised here and are left to \<open>parseOther\<close>.
\<close>

definition parse_time :: "jsstring \<Rightarrow> int option" where
  "parse_time s =
     do {
       (hh, r) \<leftarrow> fixed_number 2 s;
       (mm, r) \<leftarrow> (case r of [] \<Rightarrow> None
                    | c # r' \<Rightarrow> if c = 0x3A then fixed_number 2 r' else None);
       (ss, ms, r) \<leftarrow> (case r of [] \<Rightarrow> Some (0, 0, r)
                    | c # r' \<Rightarrow>
                        if c = 0x3A then
                          do {
                            (ss, r) \<leftarrow> fixed_number 2 r';
                            (ms, r) \<leftarrow> opt_field 0x2E 3 0 r;
                            Some (ss, ms, r)
                          }
                        else Some (0, 0, r));
       if r = [0x5A] \<and> mm \<le> 59 \<and> ss \<le> 59
            \<and> (hh \<le> 23 \<or> (hh = 24 \<and> mm = 0 \<and> ss = 0 \<and> ms = 0))
       then Some (MakeTime (int hh) (int mm) (int ss) (int ms)) else None
     }"

text \<open>
  The date-time string format of the standard: a year of four digits, or of six with a
  sign, then optionally the month, then optionally the day, then optionally the time. A
  string that has the format and names an existing day gives \<open>Some\<close> time value.
\<close>

definition parse_date_time :: "jsstring \<Rightarrow> int option" where
  "parse_date_time s =
     do {
       (y, r) \<leftarrow> parse_year s;
       (m, r) \<leftarrow> opt_field 0x2D 2 1 r;
       (d, r) \<leftarrow> opt_field 0x2D 2 1 r;
       time \<leftarrow> (case r of [] \<Rightarrow> Some 0
                 | c # r' \<Rightarrow> if c = 0x54 then parse_time r' else None);
       if 1 \<le> m \<and> m \<le> 12 \<and> 1 \<le> d \<and> d \<le> DaysInMonth y m
       then Some (MakeDate (MakeDay y (int m - 1) (int d)) time) else None
     }"

text \<open>\<open>new Date(string)\<close>: every other string is the implementation's to decide.\<close>

definition Date_parse :: "host \<Rightarrow> jsstring \<Rightarrow> int option" where
  "Date_parse h s =
     (case parse_date_time s of
        Some t \<Rightarrow> TimeClip t
      | None \<Rightarrow> Option.bind (parseOther h s) TimeClip)"

definition pad :: "nat \<Rightarrow> nat \<Rightarrow> jsstring" where
  "pad w n = replicate (w - length (digits10 n)) (digit_char 0) @ digits10 n"

definition year_string :: "int \<Rightarrow> jsstring" where
  "year_string y =
     (if 0 \<le> y \<and> y \<le> 9999 then pad 4 (nat y)
      else (if 0 \<le> y then lit ''+'' else lit ''-'') @ pad 6 (nat \<bar>y\<bar>))"

definition iso_string :: "int \<Rightarrow> jsstring" where
  "iso_string t =
     year_string (YearFromTime t) @ lit ''-'' @ pad 2 (nat (MonthFromTime t + 1))
     @ lit ''-'' @ pad 2 (nat (DateFromTime t))
     @ lit ''T'' @ pad 2 (nat (HourFromTime t))
     @ lit '':'' @ pad 2 (nat (MinFromTime t))
     @ lit '':'' @ pad 2 (nat (SecFromTime t))
     @ lit ''.'' @ pad 3 (nat (msFromTime t)) @ lit ''Z''"

text \<open>\<open>toISOString\<close> throws a \<open>RangeError\<close> on an invalid date.\<close>

definition Date_toISOString :: "int option \<Rightarrow> error + jsstring" where
  "Date_toISOString tv = (case tv of None \<Rightarrow> Inl RangeError | Some t \<Rightarrow> Inr (iso_string t))"

section \<open>The TLV record encoder\<close>

definition encodeTLV :: "int \<Rightarrow> jsstring \<Rightarrow> error + byte list" where
  "encodeTLV tag val =
     (let valueBytes = TextEncoder_encode val;
          len = length valueBytes;
          tlvArray = new_Uint8Array (2 + len);
          tlvArray = tlvArray[0 := of_int tag];
          tlvArray = tlvArray[1 := of_nat len]
      in Uint8Array_set tlvArray valueBytes 2)"

section \<open>The invoice QR payload builder\<close>

text \<open>
  The fields of the invoice that the builder reads. A field is \<open>None\<close> when the object
  has no such property (or holds \<open>undefined\<close> or \<open>null\<close>).
\<close>

record CompanyInfo =
  name :: "jsstring option"
  taxNumber :: "jsstring option"

record Invoice =
  company :: "CompanyInfo option"
  date :: "jsstring option"
  taxAmount :: "jsnum option"
  total :: "jsnum option"

text \<open>\<open>v || d\<close>: the default replaces a missing value and a falsy one.\<close>

definition string_or :: "jsstring option \<Rightarrow> jsstring \<Rightarrow> jsstring" where
  "string_or v d = (case v of None \<Rightarrow> d | Some s \<Rightarrow> if s = [] then d else s)"

definition number_or :: "jsnum option \<Rightarrow> jsnum \<Rightarrow> jsnum" where
  "number_or v d =
     (case v of
        None \<Rightarrow> d
      | Some NaN \<Rightarrow> d
      | Some (Finite q) \<Rightarrow> if q = 0 then d else Finite q
      | Some x \<Rightarrow> x)"

definition sellerName :: "Invoice \<Rightarrow> jsstring" where
  "sellerName invoice = string_or (Option.bind (company invoice) name) (lit ''Unknown Seller'')"

definition vatRegistrationNumber :: "Invoice \<Rightarrow> jsstring" where
  "vatRegistrationNumber invoice =
     string_or (Option.bind (company invoice) taxNumber) (lit ''000000000000000'')"

text \<open>
  The date block, with the lines it writes to the console: the current instant first,
  replaced inside \<open>try\<close> when the invoice date parses; \<open>catch\<close> keeps the current
  instant and warns.
\<close>

definition invoiceDateTime :: "host \<Rightarrow> Invoice \<Rightarrow> (error + jsstring) \<times> string list" where
  "invoiceDateTime h invoice =
     (case Date_toISOString (Some (now h)) of
        Inl e \<Rightarrow> (Inl e, [])
      | Inr current \<Rightarrow>
          (case date invoice of
             None \<Rightarrow> (Inr current, [])
           | Some d \<Rightarrow>
               if d = [] then (Inr current, [])
               else
                 (let dt = Date_parse h (d @ lit ''T00:00:00.000Z'')
                  in if dt = None then (Inr current, [])
                     else (case Date_toISOString dt of
                             Inl e \<Rightarrow> (Inr current, [''Invalid invoice date, using current time''])
                           | Inr s \<Rightarrow> (Inr s, [])))))"

definition totalVatAmount :: "host \<Rightarrow> Invoice \<Rightarrow> jsstring" where
  "totalVatAmount h invoice = Number_toFixed h (number_or (taxAmount invoice) (Finite 0)) 2"

definition totalInvoiceAmount :: "host \<Rightarrow> Invoice \<Rightarrow> jsstring" where
  "totalInvoiceAmount h invoice = Number_toFixed h (number_or (total invoice) (Finite 0)) 2"

definition combineTlv ::
  "byte list \<Rightarrow> byte list \<Rightarrow> byte list \<Rightarrow> byte list \<Rightarrow> byte list \<Rightarrow> error + byte list" where
  "combineTlv tlv1 tlv2 tlv3 tlv4 tlv5 =
     (let totalLength = length tlv1 + length tlv2 + length tlv3 + length tlv4 + length tlv5;
          combinedTlvData = new_Uint8Array totalLength;
          offset = 0
      in andThen (Uint8Array_set combinedTlvData tlv1 offset) (\<lambda>combinedTlvData.
         let offset = offset + length tlv1
         in andThen (Uint8Array_set combinedTlvData tlv2 offset) (\<lambda>combinedTlvData.
         let offset = offset + length tlv2
         in andThen (Uint8Array_set combinedTlvData tlv3 offset) (\<lambda>combinedTlvData.
         let offset = offset + length tlv3
         in andThen (Uint8Array_set combinedTlvData tlv4 offset) (\<lambda>combinedTlvData.
         let offset = offset + length tlv4
         in Uint8Array_set combinedTlvData tlv5 offset)))))"

text \<open>The result of a call: the returned string or the exception, and the console.\<close>

definition generateZatcaQrCode :: "host \<Rightarrow> Invoice \<Rightarrow> (error + jsstring) \<times> string list" where
  "generateZatcaQrCode h invoice =
     (let (dateTime, console) = invoiceDateTime h invoice
      in (andThen dateTime (\<lambda>invoiceDateTime.
          andThen (encodeTLV 0x01 (sellerName invoice)) (\<lambda>tlv1.
          andThen (encodeTLV 0x02 (vatRegistrationNumber invoice)) (\<lambda>tlv2.
          andThen (encodeTLV 0x03 invoiceDateTime) (\<lambda>tlv3.
          andThen (encodeTLV 0x04 (totalVatAmount h invoice)) (\<lambda>tlv4.
          andThen (encodeTLV 0x05 (totalInvoiceAmount h invoice)) (\<lambda>tlv5.
          andThen (combineTlv tlv1 tlv2 tlv3 tlv4 tlv5) (\<lambda>combinedTlvData.
          btoa (String_fromCharCode combinedTlvData)))))))),
          console))"

text \<open>
  The last line spreads the payload into the arguments of one call, a byte an argument,
  and an engine takes only so many arguments: beyond that the call raises a
  \<open>RangeError\<close>. \<open>generateZatcaQrCode\<close> above is the builder where no such limit is
  reached; \<open>generateZatcaQrCode_on\<close> is the builder on an engine whose calls take at most
  \<open>argumentLimit\<close> arguments.
\<close>

definition String_fromCharCode_spread :: "nat \<Rightarrow> byte list \<Rightarrow> error + jsstring" where
  "String_fromCharCode_spread argumentLimit bs =
     (if argumentLimit < length bs then Inl RangeError else Inr (String_fromCharCode bs))"

definition generateZatcaQrCode_on ::
  "nat \<Rightarrow> host \<Rightarrow> Invoice \<Rightarrow> (error + jsstring) \<times> string list" where
  "generateZatcaQrCode_on argumentLimit h invoice =
     (let (dateTime, console) = invoiceDateTime h invoice
      in (andThen dateTime (\<lambda>invoiceDateTime.
          andThen (encodeTLV 0x01 (sellerName invoice)) (\<lambda>tlv1.
          andThen (encodeTLV 0x02 (vatRegistrationNumber invoice)) (\<lambda>tlv2.
          andThen (encodeTLV 0x03 invoiceDateTime) (\<lambda>tlv3.
          andThen (encodeTLV 0x04 (totalVatAmount h invoice)) (\<lambda>tlv4.
          andThen (encodeTLV 0x05 (totalInvoiceAmount h invoice)) (\<lambda>tlv5.
          andThen (combineTlv tlv1 tlv2 tlv3 tlv4 tlv5) (\<lambda>combinedTlvData.
          andThen (String_fromCharCode_spread argumentLimit combinedTlvData) btoa))))))),
          console))"

section \<open>Reading a payload back\<close>

text \<open>
  What a scanner does with the returned string: decode the base64 text to bytes, then
  read tag, length and value, record after record, while a complete record follows.
\<close>

definition b64_index :: "16 word \<Rightarrow> nat option" where
  "b64_index u =
     (let c = unat u in
      if 65 \<le> c \<and> c \<le> 90 then Some (c - 65)
      else if 97 \<le> c \<and> c \<le> 122 then Some (c - 71)
      else if 48 \<le> c \<and> c \<le> 57 then Some (c + 4)
      else if c = 43 then Some 62
      else if c = 47 then Some 63
      else None)"

fun base64_decode :: "jsstring \<Rightarrow> byte list option" where
  "base64_decode [] = Some []"
| "base64_decode (p # q # r # s # rest) =
     (case (b64_index p, b64_index q) of
        (Some a, Some b) \<Rightarrow>
          if rest = [] \<and> r = 0x3D \<and> s = 0x3D then Some [of_nat (a * 4 + b div 16)]
          else (case b64_index r of
             None \<Rightarrow> None
           | Some c \<Rightarrow>
               if rest = [] \<and> s = 0x3D
               then Some [of_nat (a * 4 + b div 16), of_nat ((b mod 16) * 16 + c div 4)]
               else (case (b64_index s, base64_decode rest) of
                  (Some d, Some bs) \<Rightarrow>
                    Some (of_nat (a * 4 + b div 16) # of_nat ((b mod 16) * 16 + c div 4)
                          # of_nat ((c mod 4) * 64 + d) # bs)
                | _ \<Rightarrow> None))
      | _ \<Rightarrow> None)"
| "base64_decode _ = None"

fun readTLV :: "byte list \<Rightarrow> (byte \<times> byte \<times> byte list) list \<times> byte list" where
  "readTLV (t # l # rest) =
     (if length rest < unat l then ([], t # l # rest)
      else (let (rs, left) = readTLV (drop (unat l) rest)
            in ((t, l, take (unat l) rest) # rs, left)))"
| "readTLV bs = ([], bs)"

text \<open>
  The payload that a call returns, as bytes, and read back: its records (tag, declared
  length, value) and the bytes left over after the last complete record.
\<close>

definition decodedPayload :: "host \<Rightarrow> Invoice \<Rightarrow> byte list option" where
  "decodedPayload h invoice =
     (case fst (generateZatcaQrCode h invoice) of
        Inl e \<Rightarrow> None
      | Inr out \<Rightarrow> base64_decode out)"


section \<open>Shapes of field values\<close>





section \<open>Example inputs\<close>

text \<open>
  A host whose \<open>Date.parse\<close> rejects every string outside the standard format, with the
  clock at 2025-11-02T00:00:00.123Z (of the exponent notation only the value at
  \<open>10\<^sup>2\<^sup>1\<close> is given); an invoice with an Arabic seller name, dated on a leap day; an
  invoice with nothing filled in.
\<close>

definition strictHost :: host where
  "strictHost =
     \<lparr>now = 1762041600123,
      parseOther = (\<lambda>_. None),
      exponentForm = (\<lambda>a. if a = 10 ^ 21 then lit ''1e+21'' else [])\<rparr>"

definition exampleInvoice :: Invoice where
  "exampleInvoice =
     \<lparr>company = Some \<lparr>name = Some [0x645, 0x624, 0x633, 0x633, 0x629],
                        taxNumber = Some (lit ''300000000000003'')\<rparr>,
      date = Some (lit ''2024-02-29''),
      taxAmount = Some (Finite (3602879701896397 / 2 ^ 55)),
      total = Some (Finite (2469 / 2))\<rparr>"

definition emptyInvoice :: Invoice where
  "emptyInvoice = \<lparr>company = None, date = None, taxAmount = None, total = None\<rparr>"

definition oversizedInvoice :: Invoice where
  "oversizedInvoice =
     \<lparr>company = Some \<lparr>name = Some (replicate 130000 0x61),
                        taxNumber = Some (lit ''300000000000003'')\<rparr>,
      date = Some (lit ''2024-02-29''),
      taxAmount = Some (Finite 15),
      total = Some (Finite 115)\<rparr>"

section \<open>Facts about the host functions\<close>

lemma scalar_values_ascii:
  "\<forall>u \<in> set s. unat u < 0x80 \<Longrightarrow> scalar_values s = map unat s"
  by (induction s rule: scalar_values.induct)
     (auto simp: lone_scalar_def is_lead_def is_trail_def)

lemma TextEncoder_encode_ascii:
  assumes "\<forall>u \<in> set s. unat u < 0x80"
  shows "TextEncoder_encode s = map (\<lambda>u. of_nat (unat u)) s"
proof -
  have "concat (map utf8_of_scalar (map unat s)) = map (\<lambda>u. of_nat (unat u)) s"
    using assms by (induction s) (auto simp: utf8_of_scalar_def)
  then show ?thesis
    by (simp add: TextEncoder_encode_def scalar_values_ascii [OF assms])
qed


lemma encodeTLV_eq:
  "encodeTLV tag val =
     Inr (of_int tag # of_nat (length (TextEncoder_encode val)) # TextEncoder_encode val)"
proof -
  define n where "n = length (TextEncoder_encode val)"
  have upd: "(replicate (2 + n) (0 :: byte))[0 := a, 1 := b] = a # b # replicate n 0"
    for a b :: byte
    by (simp add: numeral_2_eq_2)
  show ?thesis
    unfolding encodeTLV_def Let_def new_Uint8Array_def Uint8Array_set_def n_def [symmetric]
    by (simp only: upd) (simp add: n_def)
qed

lemma combineTlv_eq: "combineTlv a b c d e = Inr (a @ b @ c @ d @ e)"
  unfolding combineTlv_def Let_def andThen_def Uint8Array_set_def new_Uint8Array_def
  by (simp add: add.assoc)

lemma unat_byte_less: "unat (b :: byte) < 256"
  using unsigned_less [of b, where ?'a = nat] by simp

lemma unat_b64_char:
  "n < 64 \<Longrightarrow> unat (b64_char n) = (if n < 26 then 65 + n else if n < 52 then 71 + n
       else if n < 62 then n - 4 else if n = 62 then 43 else 47)"
proof -
  have "\<forall>n \<in> set [0..<64]. unat (b64_char n) = (if n < 26 then 65 + n else if n < 52 then 71 + n
       else if n < 62 then n - 4 else if n = 62 then 43 else 47)"
    unfolding b64_char_def b64_alphabet_def by code_simp
  then show "n < 64 \<Longrightarrow> ?thesis" by simp
qed

lemma b64_index_char: "n < 64 \<Longrightarrow> b64_index (b64_char n) = Some n"
  unfolding b64_index_def Let_def by (simp add: unat_b64_char) linarith

lemma b64_char_not_pad: "n < 64 \<Longrightarrow> b64_char n \<noteq> 0x3D"
proof
  assume n: "n < 64" and "b64_char n = 0x3D"
  then have "b64_index (b64_char n) = None"
    by (simp add: b64_index_def)
  with n show False by (simp add: b64_index_char)
qed

lemma group_bounds:
  fixes a b c :: nat
  assumes "a < 256" "b < 256" "c < 256"
  shows "a div 4 < 64" "a mod 4 * 16 + b div 16 < 64" "b mod 16 * 4 + c div 64 < 64"
    "c mod 64 < 64" "a mod 4 * 16 < 64" "b mod 16 * 4 < 64"
proof -
  have "a mod 4 < 4" "b mod 16 < 16" "b div 16 < 16" "c div 64 < 4"
    using assms by simp_all
  then show "a mod 4 * 16 + b div 16 < 64" "b mod 16 * 4 + c div 64 < 64"
    "a mod 4 * 16 < 64" "b mod 16 * 4 < 64"
    by linarith+
  show "a div 4 < 64" "c mod 64 < 64" using assms by simp_all
qed

lemma group_join:
  fixes a b c :: nat
  assumes "b < 256" "c < 256"
  shows "a div 4 * 4 + (a mod 4 * 16 + b div 16) div 16 = a"
    "(a mod 4 * 16 + b div 16) mod 16 * 16 + (b mod 16 * 4 + c div 64) div 4 = b"
    "(b mod 16 * 4 + c div 64) mod 4 * 64 + c mod 64 = c"
proof -
  have b: "b div 16 < 16" and c: "c div 64 < 4"
    using assms by simp_all
  from b show "a div 4 * 4 + (a mod 4 * 16 + b div 16) div 16 = a"
    by simp
  from b c show "(a mod 4 * 16 + b div 16) mod 16 * 16 + (b mod 16 * 4 + c div 64) div 4 = b"
    by simp
  from c show "(b mod 16 * 4 + c div 64) mod 4 * 64 + c mod 64 = c"
    by simp
qed

lemma base64_decode_groups:
  "\<forall>x \<in> set xs. x < 256 \<Longrightarrow> base64_decode (b64_groups xs) = Some (map of_nat xs)"
proof (induction xs rule: b64_groups.induct)
  case (1 a b c r)
  then have lt: "a < 256" "b < 256" "c < 256" by simp_all
  from 1 have ih: "base64_decode (b64_groups r) = Some (map of_nat r)" by simp
  have "base64_decode (b64_groups (a # b # c # r)) =
          Some (of_nat (a div 4 * 4 + (a mod 4 * 16 + b div 16) div 16)
              # of_nat ((a mod 4 * 16 + b div 16) mod 16 * 16 + (b mod 16 * 4 + c div 64) div 4)
              # of_nat ((b mod 16 * 4 + c div 64) mod 4 * 64 + c mod 64) # map of_nat r)"
    by (simp add: b64_index_char b64_char_not_pad group_bounds [OF lt] ih
        del: of_nat_add of_nat_mult)
  then show ?case
    by (simp only: group_join [OF lt(2,3)] list.map)
next
  case (2 a b)
  then have lt: "a < 256" "b < 256" "(0::nat) < 256" by simp_all
  have "base64_decode (b64_groups [a, b]) =
          Some [of_nat (a div 4 * 4 + (a mod 4 * 16 + b div 16) div 16),
                of_nat ((a mod 4 * 16 + b div 16) mod 16 * 16 + (b mod 16 * 4 + 0 div 64) div 4)]"
    using group_bounds [OF lt]
    by (simp add: b64_index_char b64_char_not_pad del: of_nat_add of_nat_mult)
  then show ?case
    by (simp only: group_join [OF lt(2,3)] list.map)
next
  case (3 a)
  then have lt: "a < 256" "(0::nat) < 256" "(0::nat) < 256" by simp_all
  have "base64_decode (b64_groups [a]) =
          Some [of_nat (a div 4 * 4 + (a mod 4 * 16 + 0 div 16) div 16)]"
    using group_bounds [OF lt]
    by (simp add: b64_index_char b64_char_not_pad del: of_nat_add of_nat_mult)
  then show ?case
    by (simp only: group_join [OF lt(2,3)] list.map)
next
  case 4
  show ?case by simp
qed

lemma btoa_fromCharCode:
  "btoa (String_fromCharCode bs) = Inr (b64_groups (map unat bs))"
proof -
  have u: "unat (ucast b :: 16 word) = unat b" for b :: byte
    by (simp add: unsigned_ucast_eq take_bit_nat_eq_self_iff)
       (use unat_byte_less [of b] in simp)
  have lt: "unat b \<le> 255" for b :: byte
    using unat_byte_less [of b] by simp
  have "\<not> list_ex (\<lambda>u. 255 < unat u) (map ucast bs :: jsstring)"
    by (simp add: list_ex_iff u not_less lt)
  then show ?thesis
    by (simp add: btoa_def String_fromCharCode_def u comp_def)
qed

lemma base64_decode_btoa:
  "base64_decode (b64_groups (map unat bs)) = Some bs"
proof -
  have "base64_decode (b64_groups (map unat bs)) = Some (map of_nat (map unat bs))"
    by (rule base64_decode_groups) (simp add: unat_byte_less)
  then show ?thesis
    by (simp add: comp_def)
qed

lemma readTLV_record:
  assumes "unat l = length v"
  shows "readTLV (t # l # v @ rest) = ((t, l, v) # fst (readTLV rest), snd (readTLV rest))"
  using assms by (simp add: case_prod_beta)

lemma unat_length_byte:
  "n \<le> 255 \<Longrightarrow> unat (of_nat n :: byte) = n"
  by (simp add: unat_of_nat)

section \<open>The builder as one expression\<close>

lemma invoiceDateTime_parsed:
  assumes "date invoice = Some d" and "d \<noteq> []"
    and "Date_parse h (d @ lit ''T00:00:00.000Z'') = Some t"
  shows "invoiceDateTime h invoice = (Inr (iso_string t), [])"
  using assms by (simp add: invoiceDateTime_def Date_toISOString_def)

lemma invoiceDateTime_fallback:
  assumes "date invoice = None \<or> date invoice = Some []
    \<or> (\<exists>d. date invoice = Some d \<and> Date_parse h (d @ lit ''T00:00:00.000Z'') = None)"
  shows "invoiceDateTime h invoice = (Inr (iso_string (now h)), [])"
  using assms by (auto simp: invoiceDateTime_def Date_toISOString_def)

lemma invoiceDateTime_total:
  "\<exists>t. invoiceDateTime h invoice = (Inr (iso_string t), [])"
proof (cases "date invoice")
  case None
  then show ?thesis by (auto simp: invoiceDateTime_fallback)
next
  case (Some d)
  show ?thesis
  proof (cases "d = [] \<or> Date_parse h (d @ lit ''T00:00:00.000Z'') = None")
    case True
    with Some show ?thesis by (auto simp: invoiceDateTime_fallback)
  next
    case False
    with Some show ?thesis by (auto simp: invoiceDateTime_parsed)
  qed
qed

lemma generateZatcaQrCode_eq:
  assumes "invoiceDateTime h invoice = (Inr dt, c)"
  shows "generateZatcaQrCode h invoice =
    (Inr (b64_groups (map unat
       (1 # of_nat (length (TextEncoder_encode (sellerName invoice)))
          # TextEncoder_encode (sellerName invoice)
        @ 2 # of_nat (length (TextEncoder_encode (vatRegistrationNumber invoice)))
          # TextEncoder_encode (vatRegistrationNumber invoice)
        @ 3 # of_nat (length (TextEncoder_encode dt)) # TextEncoder_encode dt
        @ 4 # of_nat (length (TextEncoder_encode (totalVatAmount h invoice)))
          # TextEncoder_encode (totalVatAmount h invoice)
        @ 5 # of_nat (length (TextEncoder_encode (totalInvoiceAmount h invoice)))
          # TextEncoder_encode (totalInvoiceAmount h invoice)))), c)"
  unfolding generateZatcaQrCode_def assms
  by (simp add: andThen_def encodeTLV_eq combineTlv_eq btoa_fromCharCode)

lemma decodedPayload_eq:
  assumes "invoiceDateTime h invoice = (Inr dt, c)"
  shows "decodedPayload h invoice = Some
       (1 # of_nat (length (TextEncoder_encode (sellerName invoice)))
          # TextEncoder_encode (sellerName invoice)
        @ 2 # of_nat (length (TextEncoder_encode (vatRegistrationNumber invoice)))
          # TextEncoder_encode (vatRegistrationNumber invoice)
        @ 3 # of_nat (length (TextEncoder_encode dt)) # TextEncoder_encode dt
        @ 4 # of_nat (length (TextEncoder_encode (totalVatAmount h invoice)))
          # TextEncoder_encode (totalVatAmount h invoice)
        @ 5 # of_nat (length (TextEncoder_encode (totalInvoiceAmount h invoice)))
          # TextEncoder_encode (totalInvoiceAmount h invoice))"
  unfolding decodedPayload_def generateZatcaQrCode_eq [OF assms]
  by (simp only: fst_conv sum.case base64_decode_btoa)

section \<open>The example inputs, evaluated\<close>

lemma floor_rat_numeral_div [simp]:
  "\<lfloor>numeral a / numeral b :: rat\<rfloor> = numeral a div numeral b"
  by (metis floor_divide_of_int_eq of_int_numeral)

lemma replicate_small [simp]:
  "replicate 1 x = [x]" "replicate 2 x = [x, x]" "replicate 3 x = [x, x, x]"
  by (simp_all add: numeral_2_eq_2 numeral_3_eq_3)

lemmas encode_eval =
  TextEncoder_encode_def utf8_of_scalar_def lone_scalar_def is_lead_def is_trail_def lit_def

lemmas date_eval =
  Day_def DaysInYear_def DayFromYear_def YearFromDay_def YearFromTime_def DayWithinYear_def
  InLeapYear_def MonthFromTime_def DateFromTime_def HourFromTime_def MinFromTime_def
  SecFromTime_def msFromTime_def MakeTime_def DaysBeforeMonth_def MakeDay_def MakeDate_def
  msPerDay_def msPerHour_def msPerMinute_def msPerSecond_def Let_def

lemmas parse_eval =
  parse_date_time_def parse_year_def parse_time_def fixed_number_def opt_field_def
  number_of_def is_digit_def DaysInMonth_def lit_def

lemmas print_eval =
  iso_string_def year_string_def pad_def digits10.simps digit_char_def lit_def

lemmas amount_eval =
  totalVatAmount_def totalInvoiceAmount_def number_or_def Number_toFixed_def
  digits10.simps digit_char_def lit_def Let_def

lemma example_sellerName:
  "TextEncoder_encode (sellerName exampleInvoice)
     = [0xD9, 0x85, 0xD8, 0xA4, 0xD8, 0xB3, 0xD8, 0xB3, 0xD8, 0xA9]"
  by (simp add: sellerName_def exampleInvoice_def string_or_def encode_eval)

lemma example_vatRegistrationNumber:
  "TextEncoder_encode (vatRegistrationNumber exampleInvoice)
     = [51, 48, 48, 48, 48, 48, 48, 48, 48, 48, 48, 48, 48, 48, 51]"
  by (simp add: vatRegistrationNumber_def exampleInvoice_def string_or_def encode_eval)

lemma example_parse:
  "parse_date_time (lit ''2024-02-29'' @ lit ''T00:00:00.000Z'') = Some 1709164800000"
  by (simp add: parse_eval date_eval)

lemma example_iso: "iso_string 1709164800000 = lit ''2024-02-29T00:00:00.000Z''"
  by (simp add: print_eval date_eval)

lemma example_now: "iso_string (now strictHost) = lit ''2025-11-02T00:00:00.123Z''"
  by (simp add: strictHost_def print_eval date_eval)

lemma example_invoiceDateTime:
  "invoiceDateTime strictHost exampleInvoice = (Inr (lit ''2024-02-29T00:00:00.000Z''), [])"
proof -
  have "Date_parse strictHost (lit ''2024-02-29'' @ lit ''T00:00:00.000Z'') = Some 1709164800000"
    by (simp add: Date_parse_def example_parse TimeClip_def)
  moreover have "date exampleInvoice = Some (lit ''2024-02-29'')" "lit ''2024-02-29'' \<noteq> []"
    by (simp_all add: exampleInvoice_def lit_def)
  ultimately have "invoiceDateTime strictHost exampleInvoice = (Inr (iso_string 1709164800000), [])"
    by (rule invoiceDateTime_parsed [rotated 2])
  then show ?thesis
    by (simp only: example_iso)
qed

lemma example_dateTime_bytes:
  "TextEncoder_encode (lit ''2024-02-29T00:00:00.000Z'')
     = [50, 48, 50, 52, 45, 48, 50, 45, 50, 57, 84, 48, 48, 58, 48, 48, 58, 48, 48, 46, 48,
        48, 48, 90]"
  by (simp add: encode_eval)

lemma example_totalVatAmount:
  "TextEncoder_encode (totalVatAmount strictHost exampleInvoice) = [48, 46, 49, 48]"
proof -
  have "totalVatAmount strictHost exampleInvoice = lit ''0.10''"
    by (simp add: exampleInvoice_def amount_eval)
  then show ?thesis by (simp add: encode_eval)
qed

lemma example_totalInvoiceAmount:
  "TextEncoder_encode (totalInvoiceAmount strictHost exampleInvoice)
     = [49, 50, 51, 52, 46, 53, 48]"
proof -
  have "totalInvoiceAmount strictHost exampleInvoice = lit ''1234.50''"
    by (simp add: exampleInvoice_def amount_eval)
  then show ?thesis by (simp add: encode_eval)
qed

section \<open>The record encoder\<close>

text \<open>
  C2. For a tag in \<open>[0,255]\<close> and a value whose UTF-8 encoding has at most 255 bytes,
  \<open>encodeTLV\<close> returns exactly \<open>2 + length\<close> bytes: the tag byte, then the length byte,
  equal to the number of UTF-8 bytes of the value, then the UTF-8 bytes of the value in
  order, and nothing else.
\<close>

theorem encodeTLV_layout:
  assumes "0 \<le> tag" and "tag \<le> 255" and "length (TextEncoder_encode val) \<le> 255"
  shows "\<exists>bs. encodeTLV tag val = Inr bs
           \<and> length bs = 2 + length (TextEncoder_encode val)
           \<and> uint (bs ! 0) = tag
           \<and> unat (bs ! 1) = length (TextEncoder_encode val)
           \<and> drop 2 bs = TextEncoder_encode val"
proof -
  have t: "uint (word_of_int tag :: byte) = tag"
    using assms(1,2) by (simp add: uint_word_of_int)
  show ?thesis
    by (simp add: encodeTLV_eq t unat_length_byte [OF assms(3)])
qed

text \<open>
  The value of the witness is a two-letter Arabic string: two code units, four bytes.
\<close>

theorem encodeTLV_layout_witness:
  "(0::int) \<le> 1 \<and> (1::int) \<le> 255
   \<and> length (TextEncoder_encode [0x645, 0x62C]) \<le> 255
   \<and> encodeTLV 1 [0x645, 0x62C] = Inr [1, 4, 0xD9, 0x85, 0xD8, 0xAC]"
proof -
  have e: "TextEncoder_encode [0x645, 0x62C] = [0xD9, 0x85, 0xD8, 0xAC]"
    by (simp add: encode_eval)
  have h: "length (TextEncoder_encode [0x645, 0x62C]) \<le> 255"
    by (simp add: e)
  from encodeTLV_layout [of 1, OF _ _ h] obtain bs where
    "encodeTLV 1 [0x645, 0x62C] = Inr bs" "length bs = 6"
    "uint (bs ! 0) = 1" "unat (bs ! 1) = 4" "drop 2 bs = [0xD9, 0x85, 0xD8, 0xAC]"
    by (auto simp: e)
  then show ?thesis
    by (simp add: e encodeTLV_eq)
qed

text \<open>
  C10. For a value whose UTF-8 encoding has \<open>L > 255\<close> bytes, \<open>encodeTLV\<close> still returns
  \<open>2 + L\<close> bytes; the length byte is \<open>L mod 256\<close>, which is not \<open>L\<close>; the value bytes
  are all there, in order.
\<close>

theorem encodeTLV_length_wraps:
  assumes "255 < length (TextEncoder_encode val)"
  shows "\<exists>bs. encodeTLV tag val = Inr bs
           \<and> length bs = 2 + length (TextEncoder_encode val)
           \<and> unat (bs ! 1) = length (TextEncoder_encode val) mod 256
           \<and> unat (bs ! 1) \<noteq> length (TextEncoder_encode val)
           \<and> drop 2 bs = TextEncoder_encode val"
proof -
  have l: "unat (of_nat (length (TextEncoder_encode val)) :: byte)
             = length (TextEncoder_encode val) mod 256"
    by (simp add: unat_of_nat)
  have "length (TextEncoder_encode val) mod 256 < 256"
    by simp
  with assms have "length (TextEncoder_encode val) mod 256 \<noteq> length (TextEncoder_encode val)"
    by linarith
  then show ?thesis
    by (simp add: encodeTLV_eq l)
qed

theorem encodeTLV_length_wraps_witness:
  "255 < length (TextEncoder_encode (replicate 256 0x61))
   \<and> (\<exists>bs. encodeTLV 1 (replicate 256 0x61) = Inr bs
         \<and> length bs = 258 \<and> bs ! 1 = 0 \<and> drop 2 bs = replicate 256 0x61)"
proof -
  have e: "TextEncoder_encode (replicate 256 0x61) = replicate 256 0x61"
    by (subst TextEncoder_encode_ascii) (simp_all add: map_replicate_const)
  have h: "255 < length (TextEncoder_encode (replicate 256 0x61))"
    by (simp add: e)
  from encodeTLV_length_wraps [OF h, of 1] obtain bs where
    b: "encodeTLV 1 (replicate 256 0x61) = Inr bs" "length bs = 258"
    "unat (bs ! 1) = 0" "drop 2 bs = replicate 256 0x61"
    by (auto simp: e)
  from b(3) have "bs ! 1 = 0"
    by (simp add: unat_eq_0)
  with h b show ?thesis
    by blast
qed

section \<open>The payload read back\<close>

lemma readTLV_five:
  assumes "unat l1 = length v1" "unat l2 = length v2" "unat l3 = length v3"
    "unat l4 = length v4" "unat l5 = length v5"
  shows "readTLV (t1 # l1 # v1 @ t2 # l2 # v2 @ t3 # l3 # v3 @ t4 # l4 # v4 @ t5 # l5 # v5)
    = ([(t1, l1, v1), (t2, l2, v2), (t3, l3, v3), (t4, l4, v4), (t5, l5, v5)], [])"
proof -
  have "readTLV (t5 # l5 # v5 @ []) = ([(t5, l5, v5)], [])"
    by (simp only: readTLV_record [OF assms(5)]) simp
  then have 5: "readTLV (t5 # l5 # v5) = ([(t5, l5, v5)], [])"
    by simp
  show ?thesis
    by (simp only: readTLV_record [OF assms(1)] readTLV_record [OF assms(2)]
        readTLV_record [OF assms(3)] readTLV_record [OF assms(4)] 5 fst_conv snd_conv)
qed

text \<open>
  C1. When each of the five resolved values (seller name, tax number, date-time string,
  the two amounts) has at most 255 UTF-8 bytes, the returned string decodes to a buffer
  that reads back as exactly five records with tags 1 to 5 in that order, each declared
  length equal to the number of UTF-8 bytes of its value, the chunks of \<open>2 + length\<close>
  bytes spanning the buffer, with nothing left over.
\<close>

theorem payload_round_trip:
  fixes invoice :: Invoice
  assumes "fst (invoiceDateTime h invoice) = Inr dt"
    and "length (TextEncoder_encode (sellerName invoice)) \<le> 255"
    and "length (TextEncoder_encode (vatRegistrationNumber invoice)) \<le> 255"
    and "length (TextEncoder_encode dt) \<le> 255"
    and "length (TextEncoder_encode (totalVatAmount h invoice)) \<le> 255"
    and "length (TextEncoder_encode (totalInvoiceAmount h invoice)) \<le> 255"
  shows "\<exists>out payload l1 l2 l3 l4 l5.
      fst (generateZatcaQrCode h invoice) = Inr out
    \<and> base64_decode out = Some payload
    \<and> readTLV payload =
        ([(1, l1, TextEncoder_encode (sellerName invoice)),
          (2, l2, TextEncoder_encode (vatRegistrationNumber invoice)),
          (3, l3, TextEncoder_encode dt),
          (4, l4, TextEncoder_encode (totalVatAmount h invoice)),
          (5, l5, TextEncoder_encode (totalInvoiceAmount h invoice))], [])
    \<and> unat l1 = length (TextEncoder_encode (sellerName invoice))
    \<and> unat l2 = length (TextEncoder_encode (vatRegistrationNumber invoice))
    \<and> unat l3 = length (TextEncoder_encode dt)
    \<and> unat l4 = length (TextEncoder_encode (totalVatAmount h invoice))
    \<and> unat l5 = length (TextEncoder_encode (totalInvoiceAmount h invoice))
    \<and> length payload = (2 + unat l1) + (2 + unat l2) + (2 + unat l3) + (2 + unat l4)
        + (2 + unat l5)"
proof -
  obtain c where dt: "invoiceDateTime h invoice = (Inr dt, c)"
    using assms(1) by (cases "invoiceDateTime h invoice") simp
  note len = unat_length_byte [OF assms(2)] unat_length_byte [OF assms(3)]
    unat_length_byte [OF assms(4)] unat_length_byte [OF assms(5)] unat_length_byte [OF assms(6)]
  show ?thesis
    apply (simp only: generateZatcaQrCode_eq [OF dt] fst_conv)
    apply (intro exI conjI)
              apply (rule refl)
             apply (rule base64_decode_btoa)
            apply (rule readTLV_five [OF len])
           apply (simp_all add: len)
    done
qed

theorem payload_round_trip_witness:
  "fst (invoiceDateTime strictHost exampleInvoice) = Inr (lit ''2024-02-29T00:00:00.000Z'')
   \<and> length (TextEncoder_encode (sellerName exampleInvoice)) \<le> 255
   \<and> length (TextEncoder_encode (vatRegistrationNumber exampleInvoice)) \<le> 255
   \<and> length (TextEncoder_encode (lit ''2024-02-29T00:00:00.000Z'')) \<le> 255
   \<and> length (TextEncoder_encode (totalVatAmount strictHost exampleInvoice)) \<le> 255
   \<and> length (TextEncoder_encode (totalInvoiceAmount strictHost exampleInvoice)) \<le> 255
   \<and> (\<exists>out payload.
        fst (generateZatcaQrCode strictHost exampleInvoice) = Inr out
      \<and> base64_decode out = Some payload
      \<and> length payload = 70
      \<and> readTLV payload =
          ([(1, 10, [0xD9, 0x85, 0xD8, 0xA4, 0xD8, 0xB3, 0xD8, 0xB3, 0xD8, 0xA9]),
            (2, 15, [51, 48, 48, 48, 48, 48, 48, 48, 48, 48, 48, 48, 48, 48, 51]),
            (3, 24, [50, 48, 50, 52, 45, 48, 50, 45, 50, 57, 84, 48, 48, 58, 48, 48, 58, 48,
                     48, 46, 48, 48, 48, 90]),
            (4, 4, [48, 46, 49, 48]),
            (5, 7, [49, 50, 51, 52, 46, 53, 48])], []))"
proof -
  note ev = example_sellerName example_vatRegistrationNumber example_dateTime_bytes
    example_totalVatAmount example_totalInvoiceAmount
  have h1: "fst (invoiceDateTime strictHost exampleInvoice) = Inr (lit ''2024-02-29T00:00:00.000Z'')"
    by (simp add: example_invoiceDateTime)
  have h2: "length (TextEncoder_encode (sellerName exampleInvoice)) \<le> 255"
    and h3: "length (TextEncoder_encode (vatRegistrationNumber exampleInvoice)) \<le> 255"
    and h4: "length (TextEncoder_encode (lit ''2024-02-29T00:00:00.000Z'')) \<le> 255"
    and h5: "length (TextEncoder_encode (totalVatAmount strictHost exampleInvoice)) \<le> 255"
    and h6: "length (TextEncoder_encode (totalInvoiceAmount strictHost exampleInvoice)) \<le> 255"
    by (simp_all only: ev) simp_all
  from payload_round_trip [OF h1 h2 h3 h4 h5 h6]
  obtain out payload l1 l2 l3 l4 l5 where
    r: "fst (generateZatcaQrCode strictHost exampleInvoice) = Inr out"
      "base64_decode out = Some payload"
      "readTLV payload =
        ([(1, l1, TextEncoder_encode (sellerName exampleInvoice)),
          (2, l2, TextEncoder_encode (vatRegistrationNumber exampleInvoice)),
          (3, l3, TextEncoder_encode (lit ''2024-02-29T00:00:00.000Z'')),
          (4, l4, TextEncoder_encode (totalVatAmount strictHost exampleInvoice)),
          (5, l5, TextEncoder_encode (totalInvoiceAmount strictHost exampleInvoice))], [])"
      "unat l1 = length (TextEncoder_encode (sellerName exampleInvoice))"
      "unat l2 = length (TextEncoder_encode (vatRegistrationNumber exampleInvoice))"
      "unat l3 = length (TextEncoder_encode (lit ''2024-02-29T00:00:00.000Z''))"
      "unat l4 = length (TextEncoder_encode (totalVatAmount strictHost exampleInvoice))"
      "unat l5 = length (TextEncoder_encode (totalInvoiceAmount strictHost exampleInvoice))"
      "length payload = (2 + unat l1) + (2 + unat l2) + (2 + unat l3) + (2 + unat l4)
        + (2 + unat l5)"
    by blast
  have l: "l1 = 10" "l2 = 15" "l3 = 24" "l4 = 4" "l5 = 7"
    using r(4-8) unfolding ev by (simp_all add: word_unat_eq_iff)
  have "length payload = 70"
    using r(9) r(4-8) unfolding ev by simp
  with r(1-3) have "\<exists>out payload.
        fst (generateZatcaQrCode strictHost exampleInvoice) = Inr out
      \<and> base64_decode out = Some payload
      \<and> length payload = 70
      \<and> readTLV payload =
          ([(1, 10, [0xD9, 0x85, 0xD8, 0xA4, 0xD8, 0xB3, 0xD8, 0xB3, 0xD8, 0xA9]),
            (2, 15, [51, 48, 48, 48, 48, 48, 48, 48, 48, 48, 48, 48, 48, 48, 51]),
            (3, 24, [50, 48, 50, 52, 45, 48, 50, 45, 50, 57, 84, 48, 48, 58, 48, 48, 58, 48,
                     48, 46, 48, 48, 48, 90]),
            (4, 4, [48, 46, 49, 48]),
            (5, 7, [49, 50, 51, 52, 46, 53, 48])], [])"
    unfolding ev l by (intro exI conjI)
  with h1 h2 h3 h4 h5 h6 show ?thesis
    by (intro conjI)
qed


lemma decodedPayload_layout:
  fixes invoice :: Invoice
  assumes dt: "invoiceDateTime h invoice = (Inr dt, c)"
  shows "\<exists>t1 t2 t3 t4 t5.
      encodeTLV 1 (sellerName invoice) = Inr t1
    \<and> encodeTLV 2 (vatRegistrationNumber invoice) = Inr t2
    \<and> encodeTLV 3 dt = Inr t3
    \<and> encodeTLV 4 (totalVatAmount h invoice) = Inr t4
    \<and> encodeTLV 5 (totalInvoiceAmount h invoice) = Inr t5
    \<and> decodedPayload h invoice = Some (t1 @ t2 @ t3 @ t4 @ t5)"
  by (simp add: encodeTLV_eq decodedPayload_eq [OF dt])

lemma zeros15:
  "replicate 15 x = [x, x, x, x, x, x, x, x, x, x, x, x, x, x, x]"
  by (simp add: eval_nat_numeral)

lemma placeholder_bytes:
  "TextEncoder_encode (lit ''Unknown Seller'')
     = [85, 110, 107, 110, 111, 119, 110, 32, 83, 101, 108, 108, 101, 114]"
  "TextEncoder_encode (lit ''000000000000000'') = replicate 15 0x30"
  unfolding zeros15 by (simp_all add: encode_eval)



section \<open>Missing and empty fields\<close>





section \<open>Failure and determinism\<close>

lemma missing_amount:
  "Number_toFixed h (number_or None (Finite 0)) 2 = lit ''0.00''"
  by (simp add: amount_eval)

subsection \<open>The argument limit of the spread call\<close>

lemma generateZatcaQrCode_on_eq:
  assumes "invoiceDateTime h invoice = (Inr dt, c)"
  shows "generateZatcaQrCode_on argumentLimit h invoice =
    ((if argumentLimit < 10 + length (TextEncoder_encode (sellerName invoice))
            + length (TextEncoder_encode (vatRegistrationNumber invoice))
            + length (TextEncoder_encode dt)
            + length (TextEncoder_encode (totalVatAmount h invoice))
            + length (TextEncoder_encode (totalInvoiceAmount h invoice))
      then Inl RangeError
      else Inr (b64_groups (map unat
       (1 # of_nat (length (TextEncoder_encode (sellerName invoice)))
          # TextEncoder_encode (sellerName invoice)
        @ 2 # of_nat (length (TextEncoder_encode (vatRegistrationNumber invoice)))
          # TextEncoder_encode (vatRegistrationNumber invoice)
        @ 3 # of_nat (length (TextEncoder_encode dt)) # TextEncoder_encode dt
        @ 4 # of_nat (length (TextEncoder_encode (totalVatAmount h invoice)))
          # TextEncoder_encode (totalVatAmount h invoice)
        @ 5 # of_nat (length (TextEncoder_encode (totalInvoiceAmount h invoice)))
          # TextEncoder_encode (totalInvoiceAmount h invoice))))), c)"
  unfolding generateZatcaQrCode_on_def assms
  by (simp add: andThen_def encodeTLV_eq combineTlv_eq String_fromCharCode_spread_def
      btoa_fromCharCode)

lemma generateZatcaQrCode_on_unlimited:
  assumes "generateZatcaQrCode h invoice = (Inr out, c)"
    and "base64_decode out = Some payload"
  shows "generateZatcaQrCode_on argumentLimit h invoice =
    ((if argumentLimit < length payload then Inl RangeError else Inr out), c)"
proof -
  obtain t where dt: "invoiceDateTime h invoice = (Inr (iso_string t), [])"
    using invoiceDateTime_total by blast
  define P where "P =
       1 # of_nat (length (TextEncoder_encode (sellerName invoice)))
          # TextEncoder_encode (sellerName invoice)
        @ 2 # of_nat (length (TextEncoder_encode (vatRegistrationNumber invoice)))
          # TextEncoder_encode (vatRegistrationNumber invoice)
        @ 3 # of_nat (length (TextEncoder_encode (iso_string t)))
          # TextEncoder_encode (iso_string t)
        @ 4 # of_nat (length (TextEncoder_encode (totalVatAmount h invoice)))
          # TextEncoder_encode (totalVatAmount h invoice)
        @ 5 # of_nat (length (TextEncoder_encode (totalInvoiceAmount h invoice)))
          # (TextEncoder_encode (totalInvoiceAmount h invoice) :: byte list)"
  have len: "10 + length (TextEncoder_encode (sellerName invoice))
            + length (TextEncoder_encode (vatRegistrationNumber invoice))
            + length (TextEncoder_encode (iso_string t))
            + length (TextEncoder_encode (totalVatAmount h invoice))
            + length (TextEncoder_encode (totalInvoiceAmount h invoice)) = length P"
    by (simp add: P_def)
  have g: "generateZatcaQrCode h invoice = (Inr (b64_groups (map unat P)), [])"
    unfolding P_def by (rule generateZatcaQrCode_eq [OF dt])
  have on: "generateZatcaQrCode_on argumentLimit h invoice =
      ((if argumentLimit < length P then Inl RangeError
        else Inr (b64_groups (map unat P))), [])"
    unfolding len [symmetric] unfolding P_def by (rule generateZatcaQrCode_on_eq [OF dt])
  from assms(1) have out: "out = b64_groups (map unat P)" and c: "c = []"
    by (simp_all only: g prod.inject sum.inject)
  from assms(2) have "payload = P"
    by (simp only: out base64_decode_btoa option.inject)
  then show ?thesis
    by (simp only: on out c)
qed

text \<open>
  C6, as stated, fails. On an engine whose calls take at most 125000 arguments, the
  invoice of a seller whose name has 130000 letters, with every other field present and
  well formed, makes the builder raise a \<open>RangeError\<close>: no string is returned.
\<close>

theorem spread_limit_counterexample:
  "generateZatcaQrCode_on 125000 strictHost oversizedInvoice = (Inl RangeError, [])"
proof -
  obtain t where dt: "invoiceDateTime strictHost oversizedInvoice = (Inr (iso_string t), [])"
    using invoiceDateTime_total by blast
  have "sellerName oversizedInvoice = replicate 130000 0x61"
    by (simp add: sellerName_def string_or_def oversizedInvoice_def)
  moreover have "TextEncoder_encode (replicate 130000 0x61) = map (\<lambda>u. of_nat (unat u))
      (replicate 130000 (0x61 :: 16 word))"
    by (rule TextEncoder_encode_ascii) simp
  ultimately have "length (TextEncoder_encode (sellerName oversizedInvoice)) = 130000"
    by simp
  then show ?thesis
    by (simp add: generateZatcaQrCode_on_eq [OF dt])
qed

text \<open>
  C6, amended. For every invoice the date block returns a date string: the current instant
  when the date is missing or does not parse. A missing seller name or tax number is
  replaced by its placeholder and a missing amount is rendered \<open>0.00\<close>. Whenever the
  payload of these five values, ten bytes of tags and lengths included, has no more bytes
  than the engine takes arguments in one call, the builder returns a string and writes
  nothing to the console, and the string decodes to that payload: the five records of the
  values with the replacements made, in the order 1 to 5.
\<close>

theorem generateZatcaQrCode_on_returns:
  fixes invoice :: Invoice
  shows "\<exists>dt. fst (invoiceDateTime h invoice) = Inr dt
    \<and> (date invoice = None
          \<or> (\<exists>d. date invoice = Some d \<and> Date_parse h (d @ lit ''T00:00:00.000Z'') = None) \<longrightarrow>
          dt = iso_string (now h))
    \<and> (Option.bind (company invoice) name = None \<longrightarrow>
          sellerName invoice = lit ''Unknown Seller'')
    \<and> (Option.bind (company invoice) taxNumber = None \<longrightarrow>
          vatRegistrationNumber invoice = lit ''000000000000000'')
    \<and> (taxAmount invoice = None \<longrightarrow> totalVatAmount h invoice = lit ''0.00'')
    \<and> (total invoice = None \<longrightarrow> totalInvoiceAmount h invoice = lit ''0.00'')
    \<and> (10 + length (TextEncoder_encode (sellerName invoice))
           + length (TextEncoder_encode (vatRegistrationNumber invoice))
           + length (TextEncoder_encode dt)
           + length (TextEncoder_encode (totalVatAmount h invoice))
           + length (TextEncoder_encode (totalInvoiceAmount h invoice)) \<le> argumentLimit \<longrightarrow>
        (\<exists>out. generateZatcaQrCode_on argumentLimit h invoice = (Inr out, [])
          \<and> base64_decode out = Some
             (1 # of_nat (length (TextEncoder_encode (sellerName invoice)))
                # TextEncoder_encode (sellerName invoice)
              @ 2 # of_nat (length (TextEncoder_encode (vatRegistrationNumber invoice)))
                # TextEncoder_encode (vatRegistrationNumber invoice)
              @ 3 # of_nat (length (TextEncoder_encode dt)) # TextEncoder_encode dt
              @ 4 # of_nat (length (TextEncoder_encode (totalVatAmount h invoice)))
                # TextEncoder_encode (totalVatAmount h invoice)
              @ 5 # of_nat (length (TextEncoder_encode (totalInvoiceAmount h invoice)))
                # TextEncoder_encode (totalInvoiceAmount h invoice))))"
proof -
  obtain t where dt: "invoiceDateTime h invoice = (Inr (iso_string t), [])"
    using invoiceDateTime_total by blast
  have a: "fst (invoiceDateTime h invoice) = Inr (iso_string t)"
    by (simp add: dt)
  have b: "iso_string t = iso_string (now h)"
    if "date invoice = None
      \<or> (\<exists>d. date invoice = Some d \<and> Date_parse h (d @ lit ''T00:00:00.000Z'') = None)"
  proof -
    from that have "invoiceDateTime h invoice = (Inr (iso_string (now h)), [])"
      by (intro invoiceDateTime_fallback) auto
    with dt show ?thesis
      by simp
  qed
  have c: "sellerName invoice = lit ''Unknown Seller''"
    if "Option.bind (company invoice) name = None"
    using that by (simp add: sellerName_def string_or_def)
  have d: "vatRegistrationNumber invoice = lit ''000000000000000''"
    if "Option.bind (company invoice) taxNumber = None"
    using that by (simp add: vatRegistrationNumber_def string_or_def)
  have e: "totalVatAmount h invoice = lit ''0.00''" if "taxAmount invoice = None"
    using that by (simp add: totalVatAmount_def missing_amount)
  have f: "totalInvoiceAmount h invoice = lit ''0.00''" if "total invoice = None"
    using that by (simp add: totalInvoiceAmount_def missing_amount)
  have g: "\<exists>out. generateZatcaQrCode_on argumentLimit h invoice = (Inr out, [])
      \<and> base64_decode out = Some
         (1 # of_nat (length (TextEncoder_encode (sellerName invoice)))
            # TextEncoder_encode (sellerName invoice)
          @ 2 # of_nat (length (TextEncoder_encode (vatRegistrationNumber invoice)))
            # TextEncoder_encode (vatRegistrationNumber invoice)
          @ 3 # of_nat (length (TextEncoder_encode (iso_string t)))
            # TextEncoder_encode (iso_string t)
          @ 4 # of_nat (length (TextEncoder_encode (totalVatAmount h invoice)))
            # TextEncoder_encode (totalVatAmount h invoice)
          @ 5 # of_nat (length (TextEncoder_encode (totalInvoiceAmount h invoice)))
            # TextEncoder_encode (totalInvoiceAmount h invoice))"
    if "10 + length (TextEncoder_encode (sellerName invoice))
           + length (TextEncoder_encode (vatRegistrationNumber invoice))
           + length (TextEncoder_encode (iso_string t))
           + length (TextEncoder_encode (totalVatAmount h invoice))
           + length (TextEncoder_encode (totalInvoiceAmount h invoice)) \<le> argumentLimit"
  proof -
    from that have "\<not> argumentLimit < 10 + length (TextEncoder_encode (sellerName invoice))
           + length (TextEncoder_encode (vatRegistrationNumber invoice))
           + length (TextEncoder_encode (iso_string t))
           + length (TextEncoder_encode (totalVatAmount h invoice))
           + length (TextEncoder_encode (totalInvoiceAmount h invoice))"
      by (simp only: not_less)
    then have eq: "generateZatcaQrCode_on argumentLimit h invoice =
      (Inr (b64_groups (map unat
         (1 # of_nat (length (TextEncoder_encode (sellerName invoice)))
            # TextEncoder_encode (sellerName invoice)
          @ 2 # of_nat (length (TextEncoder_encode (vatRegistrationNumber invoice)))
            # TextEncoder_encode (vatRegistrationNumber invoice)
          @ 3 # of_nat (length (TextEncoder_encode (iso_string t)))
            # TextEncoder_encode (iso_string t)
          @ 4 # of_nat (length (TextEncoder_encode (totalVatAmount h invoice)))
            # TextEncoder_encode (totalVatAmount h invoice)
          @ 5 # of_nat (length (TextEncoder_encode (totalInvoiceAmount h invoice)))
            # TextEncoder_encode (totalInvoiceAmount h invoice)))), [])"
      by (simp only: generateZatcaQrCode_on_eq [OF dt] if_False)
    show ?thesis
      unfolding eq
      apply (rule exI)
      apply (rule conjI)
       apply (rule refl)
      apply (rule base64_decode_btoa)
      done
  qed
  show ?thesis
    apply (rule exI [of _ "iso_string t"])
    apply (intro conjI impI)
         apply (rule a)
        apply (erule b)
       apply (erule c)
      apply (erule d)
     apply (erule e)
    apply (erule f)
    apply (erule g)
    done
qed

theorem generateZatcaQrCode_on_returns_witness:
  "(\<exists>d. date (emptyInvoice\<lparr>date := Some (lit ''not a date'')\<rparr>) = Some d
         \<and> Date_parse strictHost (d @ lit ''T00:00:00.000Z'') = None)
   \<and> Option.bind (company (emptyInvoice\<lparr>date := Some (lit ''not a date'')\<rparr>)) name = None
   \<and> Option.bind (company (emptyInvoice\<lparr>date := Some (lit ''not a date'')\<rparr>)) taxNumber = None
   \<and> taxAmount (emptyInvoice\<lparr>date := Some (lit ''not a date'')\<rparr>) = None
   \<and> total (emptyInvoice\<lparr>date := Some (lit ''not a date'')\<rparr>) = None
   \<and> 10 + length (TextEncoder_encode (lit ''Unknown Seller''))
        + length (TextEncoder_encode (lit ''000000000000000''))
        + length (TextEncoder_encode (lit ''2025-11-02T00:00:00.123Z''))
        + length (TextEncoder_encode (lit ''0.00''))
        + length (TextEncoder_encode (lit ''0.00'')) \<le> (125000 :: nat)
   \<and> fst (invoiceDateTime strictHost (emptyInvoice\<lparr>date := Some (lit ''not a date'')\<rparr>))
       = Inr (lit ''2025-11-02T00:00:00.123Z'')
   \<and> (\<exists>out. generateZatcaQrCode_on 125000 strictHost
           (emptyInvoice\<lparr>date := Some (lit ''not a date'')\<rparr>) = (Inr out, [])
         \<and> base64_decode out = Some
            [1, 14, 85, 110, 107, 110, 111, 119, 110, 32, 83, 101, 108, 108, 101, 114,
             2, 15, 48, 48, 48, 48, 48, 48, 48, 48, 48, 48, 48, 48, 48, 48, 48,
             3, 24, 50, 48, 50, 53, 45, 49, 49, 45, 48, 50, 84, 48, 48, 58, 48, 48, 58,
             48, 48, 46, 49, 50, 51, 90,
             4, 4, 48, 46, 48, 48,
             5, 4, 48, 46, 48, 48])"
proof -
  define i where "i = emptyInvoice\<lparr>date := Some (lit ''not a date'')\<rparr>"
  have h1: "Option.bind (company i) name = None"
    and h2: "Option.bind (company i) taxNumber = None"
    and h4: "taxAmount i = None" and h5: "total i = None"
    by (simp_all add: i_def emptyInvoice_def)
  have "parse_date_time (lit ''not a date'' @ lit ''T00:00:00.000Z'') = None"
    by (simp add: parse_eval)
  then have "Date_parse strictHost (lit ''not a date'' @ lit ''T00:00:00.000Z'') = None"
    by (simp add: Date_parse_def strictHost_def)
  then have h3: "\<exists>d. date i = Some d \<and> Date_parse strictHost (d @ lit ''T00:00:00.000Z'') = None"
    by (simp add: i_def)
  have e1: "TextEncoder_encode (lit ''Unknown Seller'')
      = [85, 110, 107, 110, 111, 119, 110, 32, 83, 101, 108, 108, 101, 114]"
    and e2: "TextEncoder_encode (lit ''000000000000000'')
      = [48, 48, 48, 48, 48, 48, 48, 48, 48, 48, 48, 48, 48, 48, 48]"
    by (simp_all only: placeholder_bytes zeros15)
  have e3: "TextEncoder_encode (lit ''2025-11-02T00:00:00.123Z'')
      = [50, 48, 50, 53, 45, 49, 49, 45, 48, 50, 84, 48, 48, 58, 48, 48, 58,
         48, 48, 46, 49, 50, 51, 90]"
    and e4: "TextEncoder_encode (lit ''0.00'') = [48, 46, 48, 48]"
    by (simp_all add: encode_eval)
  have h6: "10 + length (TextEncoder_encode (lit ''Unknown Seller''))
        + length (TextEncoder_encode (lit ''000000000000000''))
        + length (TextEncoder_encode (lit ''2025-11-02T00:00:00.123Z''))
        + length (TextEncoder_encode (lit ''0.00''))
        + length (TextEncoder_encode (lit ''0.00'')) \<le> (125000 :: nat)"
    by (simp add: e1 e2 e3 e4)
  from generateZatcaQrCode_on_returns [of strictHost i 125000]
  obtain dt where t: "fst (invoiceDateTime strictHost i) = Inr dt
    \<and> (date i = None
          \<or> (\<exists>d. date i = Some d \<and> Date_parse strictHost (d @ lit ''T00:00:00.000Z'') = None) \<longrightarrow>
          dt = iso_string (now strictHost))
    \<and> (Option.bind (company i) name = None \<longrightarrow> sellerName i = lit ''Unknown Seller'')
    \<and> (Option.bind (company i) taxNumber = None \<longrightarrow>
          vatRegistrationNumber i = lit ''000000000000000'')
    \<and> (taxAmount i = None \<longrightarrow> totalVatAmount strictHost i = lit ''0.00'')
    \<and> (total i = None \<longrightarrow> totalInvoiceAmount strictHost i = lit ''0.00'')
    \<and> (10 + length (TextEncoder_encode (sellerName i))
           + length (TextEncoder_encode (vatRegistrationNumber i))
           + length (TextEncoder_encode dt)
           + length (TextEncoder_encode (totalVatAmount strictHost i))
           + length (TextEncoder_encode (totalInvoiceAmount strictHost i)) \<le> 125000 \<longrightarrow>
        (\<exists>out. generateZatcaQrCode_on 125000 strictHost i = (Inr out, [])
          \<and> base64_decode out = Some
             (1 # of_nat (length (TextEncoder_encode (sellerName i)))
                # TextEncoder_encode (sellerName i)
              @ 2 # of_nat (length (TextEncoder_encode (vatRegistrationNumber i)))
                # TextEncoder_encode (vatRegistrationNumber i)
              @ 3 # of_nat (length (TextEncoder_encode dt)) # TextEncoder_encode dt
              @ 4 # of_nat (length (TextEncoder_encode (totalVatAmount strictHost i)))
                # TextEncoder_encode (totalVatAmount strictHost i)
              @ 5 # of_nat (length (TextEncoder_encode (totalInvoiceAmount strictHost i)))
                # TextEncoder_encode (totalInvoiceAmount strictHost i))))" ..
  note t1 = t [THEN conjunct1]
    and t2 = t [THEN conjunct2, THEN conjunct1]
    and t3 = t [THEN conjunct2, THEN conjunct2, THEN conjunct1]
    and t4 = t [THEN conjunct2, THEN conjunct2, THEN conjunct2, THEN conjunct1]
    and t5 = t [THEN conjunct2, THEN conjunct2, THEN conjunct2, THEN conjunct2, THEN conjunct1]
    and t6 = t [THEN conjunct2, THEN conjunct2, THEN conjunct2, THEN conjunct2, THEN conjunct2,
      THEN conjunct1]
    and t7 = t [THEN conjunct2, THEN conjunct2, THEN conjunct2, THEN conjunct2, THEN conjunct2,
      THEN conjunct2]
  from t2 h3 have "dt = iso_string (now strictHost)"
    by blast
  then have dt: "dt = lit ''2025-11-02T00:00:00.123Z''"
    by (simp only: example_now)
  from t3 h1 have s: "sellerName i = lit ''Unknown Seller''"
    by blast
  from t4 h2 have v: "vatRegistrationNumber i = lit ''000000000000000''"
    by blast
  from t5 h4 have a4: "totalVatAmount strictHost i = lit ''0.00''"
    by blast
  from t6 h5 have a5: "totalInvoiceAmount strictHost i = lit ''0.00''"
    by blast
  from t1 have r1: "fst (invoiceDateTime strictHost i) = Inr (lit ''2025-11-02T00:00:00.123Z'')"
    by (simp only: dt)
  from t7 h6 have "\<exists>out. generateZatcaQrCode_on 125000 strictHost i = (Inr out, [])
       \<and> base64_decode out = Some
          (1 # of_nat (length (TextEncoder_encode (lit ''Unknown Seller'')))
             # TextEncoder_encode (lit ''Unknown Seller'')
           @ 2 # of_nat (length (TextEncoder_encode (lit ''000000000000000'')))
             # TextEncoder_encode (lit ''000000000000000'')
           @ 3 # of_nat (length (TextEncoder_encode (lit ''2025-11-02T00:00:00.123Z'')))
             # TextEncoder_encode (lit ''2025-11-02T00:00:00.123Z'')
           @ 4 # of_nat (length (TextEncoder_encode (lit ''0.00'')))
             # TextEncoder_encode (lit ''0.00'')
           @ 5 # of_nat (length (TextEncoder_encode (lit ''0.00'')))
             # TextEncoder_encode (lit ''0.00''))"
    unfolding dt s v a4 a5 by (rule mp)
  then have r2: "\<exists>out. generateZatcaQrCode_on 125000 strictHost i = (Inr out, [])
       \<and> base64_decode out = Some
            [1, 14, 85, 110, 107, 110, 111, 119, 110, 32, 83, 101, 108, 108, 101, 114,
             2, 15, 48, 48, 48, 48, 48, 48, 48, 48, 48, 48, 48, 48, 48, 48, 48,
             3, 24, 50, 48, 50, 53, 45, 49, 49, 45, 48, 50, 84, 48, 48, 58, 48, 48, 58,
             48, 48, 46, 49, 50, 51, 90,
             4, 4, 48, 46, 48, 48,
             5, 4, 48, 46, 48, 48]"
    by (simp add: e1 e2 e3 e4)
  from h3 h1 h2 h4 h5 h6 r1 r2 show ?thesis
    unfolding i_def by (intro conjI)
qed

lemma Date_parse_now [simp]: "Date_parse (h\<lparr>now := t\<rparr>) s = Date_parse h s"
  by (simp add: Date_parse_def split: option.split)

lemma Number_toFixed_now [simp]: "Number_toFixed (h\<lparr>now := t\<rparr>) x f = Number_toFixed h x f"
  by (simp add: Number_toFixed_def Let_def split: jsnum.split)

text \<open>
  C7. The clock is the only thing the builder reads besides its argument. When the
  invoice date parses, the clock reading does not reach the result: whatever the clock
  says at two calls with the same invoice, both return the same string, and neither
  writes to the console.
\<close>

theorem generateZatcaQrCode_deterministic:
  fixes invoice :: Invoice
  assumes "date invoice = Some d" and "d \<noteq> []"
    and "Date_parse h (d @ lit ''T00:00:00.000Z'') \<noteq> None"
  shows "generateZatcaQrCode (h\<lparr>now := t1\<rparr>) invoice = generateZatcaQrCode (h\<lparr>now := t2\<rparr>) invoice
    \<and> snd (generateZatcaQrCode (h\<lparr>now := t1\<rparr>) invoice) = []"
proof -
  from assms(3) obtain t where t: "Date_parse h (d @ lit ''T00:00:00.000Z'') = Some t"
    by blast
  have dt: "invoiceDateTime (h\<lparr>now := u\<rparr>) invoice = (Inr (iso_string t), [])" for u
    using assms(1,2) t by (intro invoiceDateTime_parsed) simp_all
  show ?thesis
    by (simp add: generateZatcaQrCode_eq [OF dt] totalVatAmount_def totalInvoiceAmount_def)
qed

theorem generateZatcaQrCode_deterministic_witness:
  "date exampleInvoice = Some (lit ''2024-02-29'') \<and> lit ''2024-02-29'' \<noteq> []
   \<and> Date_parse strictHost (lit ''2024-02-29'' @ lit ''T00:00:00.000Z'') \<noteq> None
   \<and> generateZatcaQrCode (strictHost\<lparr>now := 0\<rparr>) exampleInvoice
       = generateZatcaQrCode (strictHost\<lparr>now := 1762041600123\<rparr>) exampleInvoice
   \<and> snd (generateZatcaQrCode (strictHost\<lparr>now := 0\<rparr>) exampleInvoice) = []"
proof -
  have h1: "date exampleInvoice = Some (lit ''2024-02-29'')"
    and h2: "lit ''2024-02-29'' \<noteq> []"
    by (simp_all add: exampleInvoice_def lit_def)
  have h3: "Date_parse strictHost (lit ''2024-02-29'' @ lit ''T00:00:00.000Z'') \<noteq> None"
    by (simp add: Date_parse_def example_parse TimeClip_def)
  note r = generateZatcaQrCode_deterministic [OF h1 h2 h3, of 0 1762041600123]
  from h1 h2 h3 r [THEN conjunct1] r [THEN conjunct2] show ?thesis
    by (intro conjI)
qed

section \<open>Calendar arithmetic\<close>




















section \<open>Digits, read and printed\<close>











section \<open>The invoice date\<close>




section \<open>The fields of a time value and the printed instant\<close>



















section \<open>The date-time record\<close>






section \<open>The amount records\<close>










end
